theory Spec2Isabelle
  imports Complex_Main
begin

section \<open>JavaScript arithmetic used by the sources\<close>

text \<open>
  JavaScript numbers are modelled by the reals: no rounding error, no NaN and no infinities.
  Where the sources hold an integer-valued number (the result of \<open>Math.floor\<close> or
  \<open>Math.round\<close>) the model uses \<open>int\<close>.
\<close>

text \<open>\<open>Math.floor\<close>.\<close>

definition Math_floor :: "real \<Rightarrow> int" where
  "Math_floor x = \<lfloor>x\<rfloor>"

text \<open>\<open>Math.round\<close>: the nearest integer, a tie going towards plus infinity.\<close>

definition Math_round :: "real \<Rightarrow> int" where
  "Math_round x = \<lfloor>x + 1 / 2\<rfloor>"

text \<open>
  The remainder operator \<open>%\<close> on integer-valued numbers: the result takes the sign of the
  dividend (truncated division), unlike \<open>mod\<close> of HOL, which takes the sign of the divisor.
\<close>

definition js_rem :: "int \<Rightarrow> int \<Rightarrow> int" where
  "js_rem a b = (if a < 0 then - ((- a) mod \<bar>b\<bar>) else a mod \<bar>b\<bar>)"

text \<open>\<open>x % 1\<close> on a number: what is left after truncating \<open>x\<close> towards zero.\<close>

definition js_rem1 :: "real \<Rightarrow> real" where
  "js_rem1 x = (if x < 0 then x - of_int \<lceil>x\<rceil> else x - of_int \<lfloor>x\<rfloor>)"

text \<open>A field holding a number or \<open>null\<close>, read in an arithmetic expression: \<open>null\<close> is 0.\<close>

fun num :: "real option \<Rightarrow> real" where
  "num None = 0"
| "num (Some v) = v"


section \<open>BeatTracker.js: the transport clock and the timing evaluator\<close>

text \<open>
  The two time bases the tracker reads: \<open>audioCtx.currentTime\<close> (seconds) and
  \<open>performance.now()\<close> (milliseconds). Every operation that reads a clock takes the
  readings of that moment.
\<close>

record clocks =
  currentTime :: real
  performance_now :: real

text \<open>
  The fields of the class. \<open>audioCtx\<close> records whether an audio context has been set
  (the sources only test the field for truthiness and read its \<open>currentTime\<close>).
\<close>

record BeatTracker =
  bpm :: real
  beatDuration :: real
  startTime :: "real option"
  isRunning :: bool
  isPaused :: bool
  pausedAt :: "real option"
  totalPausedTime :: real
  barCount :: int
  audioCtx :: bool
  perfectWindow :: real
  goodWindow :: real

definition BeatTracker_new :: "real \<Rightarrow> BeatTracker" where
  "BeatTracker_new b =
     \<lparr>bpm = b, beatDuration = 60000 / b, startTime = None, isRunning = False,
      isPaused = False, pausedAt = None, totalPausedTime = 0, barCount = 0,
      audioCtx = False, perfectWindow = 50, goodWindow = 150\<rparr>"

definition setAudioContext :: "BeatTracker \<Rightarrow> BeatTracker" where
  "setAudioContext s = s\<lparr>audioCtx := True\<rparr>"

definition start :: "clocks \<Rightarrow> BeatTracker \<Rightarrow> BeatTracker" where
  "start c s =
     (let s1 = (if audioCtx s then s\<lparr>startTime := Some (currentTime c)\<rparr>
                else s\<lparr>startTime := Some (performance_now c)\<rparr>)
      in s1\<lparr>isRunning := True, barCount := 0\<rparr>)"

definition stop :: "BeatTracker \<Rightarrow> BeatTracker" where
  "stop s = s\<lparr>isRunning := False, startTime := None, isPaused := False,
               pausedAt := None, totalPausedTime := 0\<rparr>"

definition pause :: "clocks \<Rightarrow> BeatTracker \<Rightarrow> BeatTracker" where
  "pause c s =
     (if \<not> isRunning s \<or> isPaused s then s
      else let s1 = s\<lparr>isPaused := True\<rparr>
           in if audioCtx s1 then s1\<lparr>pausedAt := Some (currentTime c)\<rparr>
              else s1\<lparr>pausedAt := Some (performance_now c)\<rparr>)"

definition resume :: "clocks \<Rightarrow> BeatTracker \<Rightarrow> BeatTracker" where
  "resume c s =
     (if \<not> isPaused s then s
      else let s1 = (if audioCtx s
                     then s\<lparr>totalPausedTime := totalPausedTime s + (currentTime c - num (pausedAt s))\<rparr>
                     else s\<lparr>totalPausedTime := totalPausedTime s + (performance_now c - num (pausedAt s))\<rparr>)
           in s1\<lparr>isPaused := False, pausedAt := None\<rparr>)"

definition setBPM :: "real \<Rightarrow> BeatTracker \<Rightarrow> BeatTracker" where
  "setBPM b s = s\<lparr>bpm := b, beatDuration := 60000 / b\<rparr>"

record BeatInfo =
  beat :: int
  progress :: real
  barNumberB :: int
  totalBeats :: real

definition getCurrentBeatInfo :: "BeatTracker \<Rightarrow> clocks \<Rightarrow> BeatInfo" where
  "getCurrentBeatInfo s c =
     (if \<not> isRunning s \<or> startTime s = None
      then \<lparr>beat = 1, progress = 0, barNumberB = 0, totalBeats = 0\<rparr>
      else
        let elapsed =
              (if audioCtx s
               then (let now = (if isPaused s then num (pausedAt s) else currentTime c)
                     in (now - num (startTime s) - totalPausedTime s) * 1000)
               else (let now = (if isPaused s then num (pausedAt s) else performance_now c)
                     in now - num (startTime s) - totalPausedTime s));
            beatDur = 60000 / bpm s;
            totalBeats = elapsed / beatDur;
            currentBeat = js_rem (Math_floor totalBeats) 4 + 1;
            beatProgress = js_rem1 totalBeats;
            barNumber = Math_floor (totalBeats / 4)
        in \<lparr>beat = currentBeat, progress = beatProgress, barNumberB = barNumber,
            totalBeats = totalBeats\<rparr>)"

datatype accuracy = Perfect | Good | Off

record TimingResult =
  accuracy :: accuracy
  nearestBeat :: int
  offset :: real
  barNumber :: int

definition evaluateTiming :: "BeatTracker \<Rightarrow> clocks \<Rightarrow> real \<Rightarrow> TimingResult" where
  "evaluateTiming s c hitTime =
     (if \<not> isRunning s \<or> startTime s = None
      then \<lparr>accuracy = Off, nearestBeat = 1, offset = 0, barNumber = 0\<rparr>
      else
        let elapsed =
              (if audioCtx s
               then (let audioNow = currentTime c
                     in (audioNow - num (startTime s) - totalPausedTime s) * 1000)
               else hitTime - num (startTime s) - totalPausedTime s);
            beatPosition = elapsed / beatDuration s;
            nearestBeatIndex = Math_round beatPosition;
            nearestBeat = js_rem nearestBeatIndex 4 + 1;
            offset = (beatPosition - of_int nearestBeatIndex) * beatDuration s;
            absOffset = \<bar>offset\<bar>;
            accuracy = (if absOffset \<le> perfectWindow s then Perfect
                        else if absOffset \<le> goodWindow s then Good
                        else Off);
            barNumber = Math_floor (of_int nearestBeatIndex / 4)
        in \<lparr>accuracy = accuracy, nearestBeat = nearestBeat, offset = offset,
            barNumber = barNumber\<rparr>)"

text \<open>
  The elapsed musical time, in milliseconds, that \<open>getCurrentBeatInfo\<close> computes for a
  transport that is not paused, and the clock reading the transport is anchored to.
\<close>

definition clock :: "BeatTracker \<Rightarrow> clocks \<Rightarrow> real" where
  "clock s c = (if audioCtx s then currentTime c else performance_now c)"

definition elapsedMs :: "BeatTracker \<Rightarrow> clocks \<Rightarrow> real" where
  "elapsedMs s c =
     (if audioCtx s then (currentTime c - num (startTime s) - totalPausedTime s) * 1000
      else performance_now c - num (startTime s) - totalPausedTime s)"

text \<open>The clock readings \<open>d\<close> units of the transport's own time base earlier.\<close>

definition earlier :: "real \<Rightarrow> clocks \<Rightarrow> clocks" where
  "earlier d c = c\<lparr>currentTime := currentTime c - d, performance_now := performance_now c - d\<rparr>"


section \<open>The timing evaluator as the specification describes it\<close>

text \<open>
  The reference algorithm in the specification's words, from the elapsed musical time in
  milliseconds and the tempo: the continuous beat position is the elapsed time over the beat
  duration; the index is that position rounded half up; the nearest beat is the index
  \<open>mod\<close> 4 plus 1 (a value in 1..4); the signed offset is the distance to the index in
  milliseconds; the bar number is the floor of a quarter of the index; Perfect up to 50 ms,
  Good up to 150 ms, Off beyond.
\<close>

definition spec_round_half_up :: "real \<Rightarrow> int" where
  "spec_round_half_up x = (if x - of_int \<lfloor>x\<rfloor> < 1 / 2 then \<lfloor>x\<rfloor> else \<lfloor>x\<rfloor> + 1)"

definition spec_classify :: "real \<Rightarrow> accuracy" where
  "spec_classify off = (if \<bar>off\<bar> \<le> 50 then Perfect else if \<bar>off\<bar> \<le> 150 then Good else Off)"

definition spec_evaluate :: "real \<Rightarrow> real \<Rightarrow> TimingResult" where
  "spec_evaluate tempo elapsed =
     (let beatDurationMs = 60000 / tempo;
          position = elapsed / beatDurationMs;
          roundedIndex = spec_round_half_up position;
          off = (position - of_int roundedIndex) * beatDurationMs
      in \<lparr>accuracy = spec_classify off,
          nearestBeat = roundedIndex mod 4 + 1,
          offset = off,
          barNumber = \<lfloor>of_int roundedIndex / (4::real)\<rfloor>\<rparr>)"


section \<open>Instruments.js and Genres.js: the configuration tables\<close>

text \<open>
  A JavaScript value as far as the sources compare one: \<open>===\<close> and the keys of a
  \<open>Map\<close> are structural equality on these.
\<close>

datatype jsval = JNum real | JStr string | JBool bool | JNull | JUndefined

record Envelope =
  attack :: real
  decay :: real
  sustain :: real
  release :: real

record Instrument =
  name :: string
  beatI :: real
  oscillator :: string
  baseFreq :: real
  color :: string
  shape :: string
  envelope :: Envelope

definition INSTRUMENTS_melody :: Instrument where
  "INSTRUMENTS_melody =
     \<lparr>name = ''Melody'', beatI = 1, oscillator = ''triangle'', baseFreq = 440,
      color = ''#64b5f6'', shape = ''spiral'',
      envelope = \<lparr>attack = 5 / 100, decay = 1 / 10, sustain = 7 / 10, release = 4 / 10\<rparr>\<rparr>"

definition INSTRUMENTS_pad :: Instrument where
  "INSTRUMENTS_pad =
     \<lparr>name = ''Pad'', beatI = 2, oscillator = ''sine'', baseFreq = 330,
      color = ''#ba68c8'', shape = ''wave'',
      envelope = \<lparr>attack = 1 / 10, decay = 3 / 10, sustain = 8 / 10, release = 6 / 10\<rparr>\<rparr>"

definition INSTRUMENTS_bass :: Instrument where
  "INSTRUMENTS_bass =
     \<lparr>name = ''Bass'', beatI = 3, oscillator = ''sine'', baseFreq = 110,
      color = ''#d4a574'', shape = ''circle'',
      envelope = \<lparr>attack = 1 / 100, decay = 2 / 10, sustain = 6 / 10, release = 3 / 10\<rparr>\<rparr>"

definition INSTRUMENTS_percussion :: Instrument where
  "INSTRUMENTS_percussion =
     \<lparr>name = ''Perc'', beatI = 4, oscillator = ''square'', baseFreq = 880,
      color = ''#ef5350'', shape = ''particles'',
      envelope = \<lparr>attack = 1 / 1000, decay = 1 / 10, sustain = 1 / 10, release = 1 / 10\<rparr>\<rparr>"

text \<open>\<open>Object.values(INSTRUMENTS)\<close>, in the order the keys were written.\<close>

definition INSTRUMENTS_values :: "Instrument list" where
  "INSTRUMENTS_values =
     [INSTRUMENTS_melody, INSTRUMENTS_pad, INSTRUMENTS_bass, INSTRUMENTS_percussion]"

text \<open>
  \<open>instruments.find(i => i.beat === beat) || INSTRUMENTS.bass\<close>: \<open>find\<close> gives the
  first match or \<open>undefined\<close> (here \<open>None\<close>), and \<open>||\<close> replaces \<open>undefined\<close> by the
  bass (an object is always truthy).
\<close>

definition getInstrumentByBeat :: "jsval \<Rightarrow> Instrument" where
  "getInstrumentByBeat b =
     (case find (\<lambda>i. JNum (beatI i) = b) INSTRUMENTS_values of
        Some i \<Rightarrow> i
      | None \<Rightarrow> INSTRUMENTS_bass)"

text \<open>The semitone helper \<open>st\<close> and the genre presets.\<close>

definition SEMITONE :: real where
  "SEMITONE = 2 powr (1 / 12)"

definition st :: "real \<Rightarrow> real" where
  "st n = SEMITONE powr n"

record Genre =
  genreName :: string
  genreBpm :: real
  chords :: "real list"
  drumStyle :: string
  melodyStyle :: string
  padStyle :: string
  bassStyle :: string
  percStyle :: string

definition GENRES_pop :: Genre where
  "GENRES_pop =
     \<lparr>genreName = ''Pop'', genreBpm = 100,
      chords = [st 0, st 0, st (- 3), st (- 3), st 5, st 5, st 7, st 7],
      drumStyle = ''pop'', melodyStyle = ''pop'', padStyle = ''warm'',
      bassStyle = ''punchy'', percStyle = ''woodblock''\<rparr>"

definition GENRES_lofi :: Genre where
  "GENRES_lofi =
     \<lparr>genreName = ''Lo-Fi'', genreBpm = 75,
      chords = [st 2, st 2, st 7, st 7, st 0, st 0, st (- 3), st (- 3)],
      drumStyle = ''lofi'', melodyStyle = ''lofi'', padStyle = ''tape'',
      bassStyle = ''mellow'', percStyle = ''shaker''\<rparr>"

definition GENRES_house :: Genre where
  "GENRES_house =
     \<lparr>genreName = ''Emotional'', genreBpm = 128,
      chords = [st 5, st 5, st 0, st 0, st (- 3), st (- 3), st 7, st 7],
      drumStyle = ''fred'', melodyStyle = ''vocal'', padStyle = ''emotional'',
      bassStyle = ''reese'', percStyle = ''glitch''\<rparr>"

definition getGenre :: "string \<Rightarrow> Genre" where
  "getGenre n =
     (if n = ''pop'' then GENRES_pop
      else if n = ''lofi'' then GENRES_lofi
      else if n = ''house'' then GENRES_house
      else GENRES_pop)"


section \<open>InputHandler.js: debounced note triggers\<close>

text \<open>
  \<open>onNoteStart\<close> and \<open>onNoteEnd\<close> record whether a callback is registered; a call of a
  callback is an entry of the list the operation returns. \<open>listening\<close> records whether the
  four document listeners are registered.
\<close>

datatype callback = NoteStart real | NoteEnd "real option" real

record InputHandler =
  onNoteStart :: bool
  onNoteEnd :: bool
  isHolding :: bool
  holdStartTime :: "real option"
  lastTriggerTime :: real
  debounceMs :: real
  listening :: bool

definition InputHandler_new :: InputHandler where
  "InputHandler_new =
     \<lparr>onNoteStart = False, onNoteEnd = False, isHolding = False, holdStartTime = None,
      lastTriggerTime = 0, debounceMs = 100, listening = False\<rparr>"

definition triggerNoteStart :: "real \<Rightarrow> InputHandler \<Rightarrow> InputHandler \<times> callback list" where
  "triggerNoteStart now h =
     (if now - lastTriggerTime h < debounceMs h then (h, [])
      else if isHolding h then (h, [])
      else (h\<lparr>isHolding := True, holdStartTime := Some now, lastTriggerTime := now\<rparr>,
            if onNoteStart h then [NoteStart now] else []))"

definition triggerNoteEnd :: "real \<Rightarrow> InputHandler \<Rightarrow> InputHandler \<times> callback list" where
  "triggerNoteEnd now h =
     (if \<not> isHolding h then (h, [])
      else (h\<lparr>isHolding := False, holdStartTime := None\<rparr>,
            if onNoteEnd h then [NoteEnd (holdStartTime h) now] else []))"

text \<open>A DOM event as far as the handlers read it: the key code and the repeat flag.\<close>

datatype dom_event = KeyDown string bool | KeyUp string | TouchStart | TouchEnd

fun handleEvent :: "real \<Rightarrow> dom_event \<Rightarrow> InputHandler \<Rightarrow> InputHandler \<times> callback list" where
  "handleEvent now (KeyDown code rep) h =
     (if code \<noteq> ''Space'' then (h, [])
      else if rep then (h, [])
      else triggerNoteStart now h)"
| "handleEvent now (KeyUp code) h =
     (if code \<noteq> ''Space'' then (h, []) else triggerNoteEnd now h)"
| "handleEvent now TouchStart h = triggerNoteStart now h"
| "handleEvent now TouchEnd h = triggerNoteEnd now h"

definition startInput :: "InputHandler \<Rightarrow> InputHandler" where
  "startInput h = h\<lparr>listening := True\<rparr>"

definition stopInput :: "InputHandler \<Rightarrow> InputHandler" where
  "stopInput h = h\<lparr>listening := False, isHolding := False, holdStartTime := None\<rparr>"

text \<open>
  What can happen to a handler: a DOM event at a reading of \<open>performance.now()\<close>
  (delivered only while the listeners are registered), \<open>start()\<close> and \<open>stop()\<close>.
\<close>

datatype action = Dispatch real dom_event | StartInput | StopInput

fun step :: "action \<Rightarrow> InputHandler \<Rightarrow> InputHandler \<times> callback list" where
  "step (Dispatch now ev) h = (if listening h then handleEvent now ev h else (h, []))"
| "step StartInput h = (startInput h, [])"
| "step StopInput h = (stopInput h, [])"

fun run :: "action list \<Rightarrow> InputHandler \<Rightarrow> InputHandler \<times> callback list" where
  "run [] h = (h, [])"
| "run (a # as) h =
     (let (h1, out1) = step a h; (h2, out2) = run as h1 in (h2, out1 @ out2))"

text \<open>The timestamps of the \<open>onNoteStart\<close> calls of a callback log, in order.\<close>

fun noteStarts :: "callback list \<Rightarrow> real list" where
  "noteStarts [] = []"
| "noteStarts (NoteStart t # cs) = t # noteStarts cs"
| "noteStarts (NoteEnd a b # cs) = noteStarts cs"


section \<open>AudioEngine.js: the loop registry and the lookahead scheduler\<close>

text \<open>
  The Web Audio graph is outside the repository. What the model keeps of it: every source
  node (oscillator or buffer source) the engine creates gets the next natural number as its
  handle (\<open>nextSource\<close>); \<open>stopCalled\<close> holds the handles on which a loop's \<open>stop\<close>
  closure has called \<open>stop()\<close>; \<open>drumStarts\<close> lists the start times of the drum measures
  rendered so far; \<open>nextTimer\<close> is the next identifier \<open>setTimeout\<close> hands out.
  An entry of \<open>activeLoops\<close> is the list of sources its \<open>stop\<close> closure captured.
  An operation that reads \<open>ctx.currentTime\<close> takes the reading as its argument
  \<open>ctxNow\<close>: it is modelled for an engine whose audio context exists.
\<close>

record AudioEngine =
  isInitialized :: bool
  activeLoops :: "jsval \<rightharpoonup> nat list"
  bpmE :: real
  beatDurationE :: real
  drumLoopInterval :: "nat option"
  schedulerTimerId :: "nat option"
  nextLoopTime :: real
  scheduleAheadTime :: real
  lookahead :: real
  isDrumsPlaying :: bool
  currentGenreId :: string
  genre :: Genre
  nextSource :: nat
  stopCalled :: "nat set"
  drumStarts :: "real list"
  nextTimer :: nat

definition AudioEngine_new :: AudioEngine where
  "AudioEngine_new =
     \<lparr>isInitialized = False, activeLoops = Map.empty, bpmE = 100, beatDurationE = 60 / 100,
      drumLoopInterval = None, schedulerTimerId = None, nextLoopTime = 0,
      scheduleAheadTime = 1 / 10, lookahead = 25, isDrumsPlaying = False,
      currentGenreId = ''pop'', genre = getGenre ''pop'',
      nextSource = 0, stopCalled = {}, drumStarts = [], nextTimer = 1\<rparr>"

definition initialize :: "AudioEngine \<Rightarrow> AudioEngine" where
  "initialize e = (if isInitialized e then e else e\<lparr>isInitialized := True\<rparr>)"

definition setBPME :: "real \<Rightarrow> AudioEngine \<Rightarrow> AudioEngine" where
  "setBPME b e = e\<lparr>bpmE := b, beatDurationE := 60 / b\<rparr>"

text \<open>Creating \<open>n\<close> source nodes: their handles, and the engine afterwards.\<close>

definition createSources :: "nat \<Rightarrow> AudioEngine \<Rightarrow> nat list \<times> AudioEngine" where
  "createSources n e = ([nextSource e ..< nextSource e + n], e\<lparr>nextSource := nextSource e + n\<rparr>)"

text \<open>\<open>loop.stop()\<close>: \<open>stop()\<close> on every captured source, an exception swallowed.\<close>

definition loop_stop :: "nat list \<Rightarrow> AudioEngine \<Rightarrow> AudioEngine" where
  "loop_stop srcs e = e\<lparr>stopCalled := stopCalled e \<union> set srcs\<rparr>"

definition stopLoop :: "jsval \<Rightarrow> AudioEngine \<Rightarrow> AudioEngine" where
  "stopLoop b e =
     (case activeLoops e b of
        Some loop \<Rightarrow> (let e1 = loop_stop loop e in e1\<lparr>activeLoops := (activeLoops e1)(b := None)\<rparr>)
      | None \<Rightarrow> e)"

text \<open>
  The loops. Each pushes the source nodes it creates into \<open>sources\<close> and registers a
  \<open>stop\<close> closure over them under its key: the bass plays 2 notes of 3 oscillators (reese)
  or 2 (otherwise); the melody 8 notes of 1 oscillator (vocal) or 2; the pad 4 chord tones of
  3 oscillators; the wood block 8 hits of 2 oscillators.
\<close>

definition playBassLoop :: "AudioEngine \<Rightarrow> AudioEngine" where
  "playBassLoop e =
     (let (sources, e1) = createSources (if bassStyle (genre e) = ''reese'' then 2 * 3 else 2 * 2) e
      in e1\<lparr>activeLoops := (activeLoops e1)(JNum 3 \<mapsto> sources)\<rparr>)"

definition playMelodyLoop :: "AudioEngine \<Rightarrow> AudioEngine" where
  "playMelodyLoop e =
     (let (sources, e1) = createSources (if melodyStyle (genre e) = ''vocal'' then 8 * 1 else 8 * 2) e
      in e1\<lparr>activeLoops := (activeLoops e1)(JNum 1 \<mapsto> sources)\<rparr>)"

definition playPadLoop :: "AudioEngine \<Rightarrow> AudioEngine" where
  "playPadLoop e =
     (let (sources, e1) = createSources (4 * 3) e
      in e1\<lparr>activeLoops := (activeLoops e1)(JNum 2 \<mapsto> sources)\<rparr>)"

definition playPercussionLoop :: "AudioEngine \<Rightarrow> AudioEngine" where
  "playPercussionLoop e =
     (let (sources, e1) = createSources (8 * 2) e
      in e1\<lparr>activeLoops := (activeLoops e1)(JNum 4 \<mapsto> sources)\<rparr>)"

text \<open>
  The number of sources one drum measure creates (a kick and a snare are 2 sources each, a
  hi-hat 1). In the fred style every one of the 16 steps adds a hi-hat when
  \<open>Math.random() > 0.8\<close>; \<open>rolls\<close> is the number of steps where it did.
\<close>

definition drumSources :: "string \<Rightarrow> nat \<Rightarrow> nat" where
  "drumSources style rolls =
     (if style = ''pop'' then 3 * 2 + 2 * 2 + 2 + 16
      else if style = ''lofi'' then 3 * 2 + 2 * 2 + 8
      else if style = ''fred'' then 4 * 2 + 2 * 2 + 2 * 2 + rolls + 16
      else 0)"

text \<open>
  \<open>playDrumLoop(isDissonant, time)\<close>, \<open>ctxNow\<close> being \<open>ctx.currentTime\<close>: the measure
  starts at \<open>time\<close> when one is given. The new closure is stored under \<open>'drums'\<close>; the
  entry that was there is not stopped.
\<close>

definition playDrumLoop :: "real \<Rightarrow> nat \<Rightarrow> real option \<Rightarrow> AudioEngine \<Rightarrow> AudioEngine" where
  "playDrumLoop ctxNow rolls time e =
     (let now = (case time of Some t \<Rightarrow> t | None \<Rightarrow> ctxNow);
          (sources, e1) = createSources (drumSources (drumStyle (genre e)) rolls) e;
          e2 = e1\<lparr>drumStarts := drumStarts e1 @ [now]\<rparr>
      in e2\<lparr>activeLoops := (activeLoops e2)(JStr ''drums'' \<mapsto> sources)\<rparr>)"

datatype js_error = TypeError

text \<open>
  \<open>playNote(beat, barNumber, accuracy)\<close>. \<open>chords[barNumber % chords.length]\<close> is
  \<open>undefined\<close> for an index that is not one of the array, and reading \<open>.root\<close> of it
  throws before anything is stopped. The result is \<open>null\<close> (\<open>None\<close>) on an engine that
  is not initialised, \<open>{beat, barNumber}\<close> otherwise.
\<close>

definition playNote ::
  "jsval \<Rightarrow> int \<Rightarrow> accuracy \<Rightarrow> AudioEngine \<Rightarrow> js_error + (AudioEngine \<times> (jsval \<times> int) option)" where
  "playNote b barNo acc e =
     (if \<not> isInitialized e then Inr (e, None)
      else
        let instrument = getInstrumentByBeat b;
            chs = chords (genre e);
            chordIndex = js_rem barNo (int (length chs))
        in if length chs = 0 \<or> chordIndex < 0 \<or> int (length chs) \<le> chordIndex then Inl TypeError
           else
             let isDissonant = (acc = Off);
                 baseFreq = baseFreq instrument * (chs ! nat chordIndex);
                 e1 = stopLoop b e;
                 e2 = (if b = JNum 1 then playMelodyLoop e1
                       else if b = JNum 2 then playPadLoop e1
                       else if b = JNum 3 then playBassLoop e1
                       else if b = JNum 4 then playPercussionLoop e1
                       else e1)
             in Inr (e2, Some (b, barNo)))"

definition scheduleLoop :: "real \<Rightarrow> nat \<Rightarrow> real \<Rightarrow> AudioEngine \<Rightarrow> AudioEngine" where
  "scheduleLoop ctxNow rolls time e =
     (if isDrumsPlaying e then playDrumLoop ctxNow rolls (Some time) e else e)"

text \<open>
  The \<open>while\<close> loop of \<open>scheduler()\<close>. Its arithmetic is the one of JavaScript numbers:
  \<open>rd\<close> rounds the exact result of an addition or a multiplication to the number the
  engine stores (the identity gives exact arithmetic). Every test of the loop reads
  \<open>ctx.currentTime\<close> again: \<open>ctxTime i\<close> is the reading of the \<open>i\<close>-th test. \<open>rolls t\<close> is
  the number of random hi-hats of the measure rendered for time \<open>t\<close>. The loop need not
  end (a measure of no positive length), so its result is optional.
\<close>

partial_function (option) scheduler_loop ::
  "(real \<Rightarrow> real) \<Rightarrow> (nat \<Rightarrow> real) \<Rightarrow> (real \<Rightarrow> nat) \<Rightarrow> nat \<Rightarrow> AudioEngine
     \<Rightarrow> AudioEngine option" where
  "scheduler_loop rd ctxTime rolls i e =
     (if nextLoopTime e < rd (ctxTime i + scheduleAheadTime e)
      then (let e1 = scheduleLoop (ctxTime i) (rolls (nextLoopTime e)) (nextLoopTime e) e
            in scheduler_loop rd ctxTime rolls (Suc i)
                 (e1\<lparr>nextLoopTime := rd (nextLoopTime e1 + rd (beatDurationE e1 * 4))\<rparr>))
      else Some e)"

definition setTimeout :: "AudioEngine \<Rightarrow> AudioEngine" where
  "setTimeout e = e\<lparr>schedulerTimerId := Some (nextTimer e), nextTimer := nextTimer e + 1\<rparr>"

definition scheduler ::
  "(real \<Rightarrow> real) \<Rightarrow> (nat \<Rightarrow> real) \<Rightarrow> (real \<Rightarrow> nat) \<Rightarrow> AudioEngine \<Rightarrow> AudioEngine option" where
  "scheduler rd ctxTime rolls e =
     (if \<not> isDrumsPlaying e then Some e
      else (case scheduler_loop rd ctxTime rolls 0 e of
              None \<Rightarrow> None
            | Some e1 \<Rightarrow> Some (setTimeout e1)))"

text \<open>
  \<open>startContinuousDrums()\<close> reads the clock once for \<open>nextLoopTime\<close>; the tests of the
  pass it starts read the later readings.
\<close>

definition startContinuousDrums ::
  "(real \<Rightarrow> real) \<Rightarrow> (nat \<Rightarrow> real) \<Rightarrow> (real \<Rightarrow> nat) \<Rightarrow> AudioEngine \<Rightarrow> AudioEngine option" where
  "startContinuousDrums rd ctxTime rolls e =
     (if isDrumsPlaying e then Some e
      else scheduler rd (\<lambda>i. ctxTime (Suc i)) rolls
             (e\<lparr>isDrumsPlaying := True, nextLoopTime := ctxTime 0\<rparr>))"

definition stopContinuousDrums :: "AudioEngine \<Rightarrow> AudioEngine" where
  "stopContinuousDrums e =
     (let e1 = e\<lparr>isDrumsPlaying := False\<rparr>;
          e2 = (if schedulerTimerId e1 \<noteq> None \<and> schedulerTimerId e1 \<noteq> Some 0
                then e1\<lparr>schedulerTimerId := None\<rparr> else e1);
          e3 = (if drumLoopInterval e2 \<noteq> None \<and> drumLoopInterval e2 \<noteq> Some 0
                then e2\<lparr>drumLoopInterval := None\<rparr> else e2)
      in (case activeLoops e3 (JStr ''drums'') of
            Some loop \<Rightarrow> (let e4 = loop_stop loop e3
                          in e4\<lparr>activeLoops := (activeLoops e4)(JStr ''drums'' := None)\<rparr>)
          | None \<Rightarrow> e3))"

text \<open>
  The values \<open>nextLoopTime\<close> takes in a pass: it starts at \<open>next\<close> and every iteration
  adds one measure \<open>len\<close>, rounding the sum.
\<close>

primrec loopTime :: "(real \<Rightarrow> real) \<Rightarrow> real \<Rightarrow> real \<Rightarrow> nat \<Rightarrow> real" where
  "loopTime rd len next 0 = next"
| "loopTime rd len next (Suc k) = rd (loopTime rd len next k + len)"

text \<open>Rendering the drum measures for a list of start times, one after the other.\<close>

definition renderMeasures :: "real \<Rightarrow> (real \<Rightarrow> nat) \<Rightarrow> real list \<Rightarrow> AudioEngine \<Rightarrow> AudioEngine" where
  "renderMeasures ctxNow rolls ts e = foldl (\<lambda>a t. playDrumLoop ctxNow (rolls t) (Some t) a) e ts"



section \<open>Sequences of transport operations\<close>

text \<open>
  The operations a caller can apply to a tracker, each with the clock readings of its
  moment, and the state a sequence of them reaches.
\<close>

datatype transport_op =
  TStart clocks | TStop | TPause clocks | TResume clocks | TSetBPM real | TSetAudioContext

fun apply_op :: "BeatTracker \<Rightarrow> transport_op \<Rightarrow> BeatTracker" where
  "apply_op s (TStart c) = start c s"
| "apply_op s TStop = stop s"
| "apply_op s (TPause c) = pause c s"
| "apply_op s (TResume c) = resume c s"
| "apply_op s (TSetBPM b) = setBPM b s"
| "apply_op s TSetAudioContext = setAudioContext s"

definition apply_ops :: "transport_op list \<Rightarrow> BeatTracker \<Rightarrow> BeatTracker" where
  "apply_ops ops s = foldl apply_op s ops"

text \<open>
  Two invariants of the reachable states: a transport that is not running has no pause
  recorded; the cached beat duration is the one of the tempo and the windows are the
  default ones.
\<close>

definition idle_clear :: "BeatTracker \<Rightarrow> bool" where
  "idle_clear s \<longleftrightarrow>
     (\<not> isRunning s \<longrightarrow> totalPausedTime s = 0 \<and> \<not> isPaused s \<and> pausedAt s = None)"

definition configured :: "BeatTracker \<Rightarrow> bool" where
  "configured s \<longleftrightarrow>
     beatDuration s = 60000 / bpm s \<and> perfectWindow s = 50 \<and> goodWindow s = 150"


section \<open>Auxiliary predicates and the concrete states of the examples\<close>

text \<open>
  What one step of the input handler does to the debounce bookkeeping: the interval and the
  callback stay, and either no \<open>onNoteStart\<close> fires and (with a callback registered) the
  last trigger time stays, or exactly one fires, at the new last trigger time, a full
  interval after the previous one.
\<close>

definition stepped :: "InputHandler \<Rightarrow> InputHandler \<times> callback list \<Rightarrow> bool" where
  "stepped h r \<longleftrightarrow>
     debounceMs (fst r) = debounceMs h \<and> onNoteStart (fst r) = onNoteStart h \<and>
     (\<not> onNoteStart h \<longrightarrow> noteStarts (snd r) = []) \<and>
     ((noteStarts (snd r) = [] \<and> (onNoteStart h \<longrightarrow> lastTriggerTime (fst r) = lastTriggerTime h))
      \<or> (\<exists>t. noteStarts (snd r) = [t] \<and> lastTriggerTime (fst r) = t
              \<and> lastTriggerTime h + debounceMs h \<le> t))"


text \<open>Both clocks read at the same moment, \<open>ms\<close> milliseconds after they were zero.\<close>

definition reading :: "real \<Rightarrow> clocks" where
  "reading ms = \<lparr>currentTime = ms / 1000, performance_now = ms\<rparr>"

text \<open>
  A tracker at 100 BPM without an audio context, started when \<open>performance.now()\<close> was
  1000; the same tracker after a pause from 2000 to 6000.
\<close>

definition tracker100 :: BeatTracker where
  "tracker100 = start (reading 1000) (BeatTracker_new 100)"

definition resumed100 :: BeatTracker where
  "resumed100 = resume (reading 6000) (pause (reading 2000) tracker100)"

text \<open>A listening handler with an \<open>onNoteStart\<close> callback.\<close>

definition handler0 :: InputHandler where
  "handler0 = startInput (InputHandler_new\<lparr>onNoteStart := True\<rparr>)"

text \<open>
  An initialised pop engine; the same with a bass loop registered; with one and with two
  drum measures rendered; and with the drums running and the next measure due at 2.4 s.
\<close>

definition engine0 :: AudioEngine where
  "engine0 = initialize AudioEngine_new"




definition late :: AudioEngine where
  "late = engine0\<lparr>isDrumsPlaying := True, nextLoopTime := 24 / 10\<rparr>"


section \<open>Facts about the JavaScript arithmetic\<close>

lemma Math_round_half_up: "Math_round x = spec_round_half_up x"
  unfolding Math_round_def spec_round_half_up_def by (auto; linarith)

lemma js_rem_nonneg: "0 \<le> a \<Longrightarrow> js_rem a 4 = a mod 4"
  by (simp add: js_rem_def)

text \<open>On a negative index that 4 does not divide, \<open>%\<close> is 4 below \<open>mod\<close>.\<close>

lemma js_rem_neg: "a < 0 \<Longrightarrow> js_rem a 4 = (if 4 dvd a then 0 else a mod 4 - 4)"
  unfolding js_rem_def by (simp add: zmod_zminus1_eq_if) presburger

lemma floor_minus_one_real: "\<lfloor>- 1 :: real\<rfloor> = - 1"
  using floor_of_int [of "- 1", where ?'a = real] by simp

lemmas tracker_defs =
  tracker100_def resumed100_def reading_def BeatTracker_new_def start_def stop_def
  pause_def resume_def clock_def earlier_def Let_def


section \<open>The timing evaluator\<close>

text \<open>
  C1. On a running transport with a tempo above 0, for a hit whose elapsed musical time is
  not negative (more generally, not earlier than half a beat before the origin, so that
  the rounded beat index is not negative), \<open>evaluateTiming\<close> returns what the reference
  algorithm of the specification returns: the position is the elapsed time over the beat
  duration, the index is the position rounded half up, the nearest beat is the index
  \<open>mod\<close> 4 plus 1 and one of 1, 2, 3, 4, the offset is the signed distance to the index in
  milliseconds, the bar is the floor of a quarter of the index, and the accuracy is Perfect
  up to 50 ms, Good up to 150 ms, Off beyond. The elapsed time is the one the code
  computes: from the audio clock at the moment of evaluation when an audio context is set,
  from the hit timestamp otherwise.
\<close>

theorem evaluateTiming_matches_reference:
  assumes run: "isRunning s" "startTime s \<noteq> None"
    and pos: "0 < bpm s" and bd: "beatDuration s = 60000 / bpm s"
    and el: "el = (if audioCtx s then (currentTime c - num (startTime s) - totalPausedTime s) * 1000
                   else h - num (startTime s) - totalPausedTime s)"
    and nn: "- (beatDuration s / 2) \<le> el"
    and win: "perfectWindow s = 50" "goodWindow s = 150"
  shows "evaluateTiming s c h = spec_evaluate (bpm s) el
       \<and> nearestBeat (evaluateTiming s c h) \<in> {1, 2, 3, 4}"
proof -
  define p where "p = el / beatDuration s"
  define i where "i = Math_round p"
  have "0 < beatDuration s" using pos bd by simp
  then have "- (1 / 2) \<le> p" using nn
    by (simp add: field_simps p_def)
  then have i0: "0 \<le> i"
    unfolding Math_round_def i_def by simp
  have code: "evaluateTiming s c h =
      \<lparr>accuracy = (if \<bar>(p - of_int i) * beatDuration s\<bar> \<le> 50 then Perfect
                    else if \<bar>(p - of_int i) * beatDuration s\<bar> \<le> 150 then Good else Off),
       nearestBeat = js_rem i 4 + 1, offset = (p - of_int i) * beatDuration s,
       barNumber = \<lfloor>of_int i / (4::real)\<rfloor>\<rparr>"
    unfolding evaluateTiming_def Let_def el[symmetric] p_def[symmetric] i_def[symmetric]
    using run win by (auto simp add: Math_floor_def)
  have spec: "spec_evaluate (bpm s) el =
      \<lparr>accuracy = (if \<bar>(p - of_int i) * beatDuration s\<bar> \<le> 50 then Perfect
                    else if \<bar>(p - of_int i) * beatDuration s\<bar> \<le> 150 then Good else Off),
       nearestBeat = i mod 4 + 1, offset = (p - of_int i) * beatDuration s,
       barNumber = \<lfloor>of_int i / (4::real)\<rfloor>\<rparr>"
    unfolding spec_evaluate_def Let_def bd[symmetric] p_def[symmetric]
      Math_round_half_up[symmetric] i_def[symmetric] spec_classify_def
    by simp
  have m: "i mod 4 \<in> {0, 1, 2, 3}"
    using pos_mod_bound [of 4 i] pos_mod_sign [of 4 i] by auto
  have eq: "evaluateTiming s c h = spec_evaluate (bpm s) el"
    unfolding code spec using i0 by (simp add: js_rem_nonneg)
  have "nearestBeat (evaluateTiming s c h) = i mod 4 + 1"
    unfolding eq spec by simp
  then show ?thesis using eq m by auto
qed

text \<open>
  At 100 BPM, origin at 1000: a hit 605 ms after the origin is beat 2, 5 ms late, Perfect;
  a hit exactly half a beat (300 ms) after the origin goes to the later beat, 300 ms early,
  Off; an offset of 50.0001 ms is Good.
\<close>

theorem evaluateTiming_matches_reference_witness:
  "isRunning tracker100 \<and> 0 < bpm tracker100
   \<and> evaluateTiming tracker100 (reading 1605) 1605 = spec_evaluate 100 605
   \<and> spec_evaluate 100 605 = \<lparr>accuracy = Perfect, nearestBeat = 2, offset = 5, barNumber = 0\<rparr>
   \<and> evaluateTiming tracker100 (reading 1300) 1300 = spec_evaluate 100 300
   \<and> spec_evaluate 100 300 = \<lparr>accuracy = Off, nearestBeat = 2, offset = - 300, barNumber = 0\<rparr>
   \<and> evaluateTiming tracker100 (reading 1650) (1650 + 1 / 10000)
       = spec_evaluate 100 (650 + 1 / 10000)
   \<and> accuracy (spec_evaluate 100 (650 + 1 / 10000)) = Good"
proof -
  have f: "isRunning tracker100" "startTime tracker100 \<noteq> None" "0 < bpm tracker100"
    "beatDuration tracker100 = 60000 / bpm tracker100"
    "perfectWindow tracker100 = 50" "goodWindow tracker100 = 150" "bpm tracker100 = 100"
    by (simp_all add: tracker_defs)
  have a: "evaluateTiming tracker100 (reading 1605) 1605 = spec_evaluate 100 605"
    using evaluateTiming_matches_reference [OF f(1-4) _ _ f(5,6), of 605 "reading 1605" 1605]
    by (simp add: tracker_defs)
  have b: "evaluateTiming tracker100 (reading 1300) 1300 = spec_evaluate 100 300"
    using evaluateTiming_matches_reference [OF f(1-4) _ _ f(5,6), of 300 "reading 1300" 1300]
    by (simp add: tracker_defs)
  have c: "evaluateTiming tracker100 (reading 1650) (1650 + 1 / 10000)
       = spec_evaluate 100 (650 + 1 / 10000)"
    using evaluateTiming_matches_reference [OF f(1-4) _ _ f(5,6), of "650 + 1 / 10000"
        "reading 1650" "1650 + 1 / 10000"]
    by (simp add: tracker_defs)
  have v: "spec_evaluate 100 605 = \<lparr>accuracy = Perfect, nearestBeat = 2, offset = 5, barNumber = 0\<rparr>"
    "spec_evaluate 100 300 = \<lparr>accuracy = Off, nearestBeat = 2, offset = - 300, barNumber = 0\<rparr>"
    "accuracy (spec_evaluate 100 (650 + 1 / 10000)) = Good"
    by (simp_all add: spec_evaluate_def spec_round_half_up_def spec_classify_def)
  show ?thesis using f(1,3) a b c v by simp
qed

text \<open>
  The scenarios of the specification at 100 BPM, evaluated on the code: a hit 605 ms after
  the origin is beat 2, 5 ms late, Perfect; a hit 780 ms after it is beat 2, 180 ms late,
  Off; an offset of 50.0001 ms is Good; a hit on a beat has offset 0 and is Perfect.
\<close>

lemma evaluateTiming_scenarios:
  "evaluateTiming tracker100 (reading 1605) 1605
     = \<lparr>accuracy = Perfect, nearestBeat = 2, offset = 5, barNumber = 0\<rparr>"
  "evaluateTiming tracker100 (reading 1780) 1780
     = \<lparr>accuracy = Off, nearestBeat = 2, offset = 180, barNumber = 0\<rparr>"
  "accuracy (evaluateTiming tracker100 (reading 1650) (1650 + 1 / 10000)) = Good"
  "evaluateTiming tracker100 (reading 1600) 1600
     = \<lparr>accuracy = Perfect, nearestBeat = 2, offset = 0, barNumber = 0\<rparr>"
  by (simp_all add: tracker_defs evaluateTiming_def Math_round_def Math_floor_def js_rem_def)

text \<open>
  The bound on the elapsed time cannot be dropped: with a timestamp 600 ms before the
  origin the rounded index is -1, the remainder \<open>%\<close> of the code is negative, and the code
  answers beat 0 where \<open>mod\<close> gives beat 4. The transport never produces such an elapsed
  time: its elapsed time is not negative while it runs.
\<close>

lemma evaluateTiming_negative_index:
  "evaluateTiming tracker100 (reading 1000) 400
     = \<lparr>accuracy = Perfect, nearestBeat = 0, offset = 0, barNumber = - 1\<rparr>
   \<and> spec_evaluate (bpm tracker100) (400 - 1000 - 0)
     = \<lparr>accuracy = Perfect, nearestBeat = 4, offset = 0, barNumber = - 1\<rparr>"
  by (simp add: tracker_defs evaluateTiming_def Math_round_def Math_floor_def js_rem_def
      spec_evaluate_def spec_round_half_up_def spec_classify_def floor_minus_one_real)

text \<open>
  C8. If the transport is not running, \<open>evaluateTiming\<close> returns the fallback
  \<open>{accuracy: Off, nearestBeat: 1, offset: 0, barNumber: 0}\<close> for every hit timestamp and
  every reading of the clocks; no step of it can raise.
\<close>

theorem evaluateTiming_not_running:
  "\<not> isRunning s \<Longrightarrow>
   evaluateTiming s c hitTime = \<lparr>accuracy = Off, nearestBeat = 1, offset = 0, barNumber = 0\<rparr>"
  by (simp add: evaluateTiming_def)

theorem evaluateTiming_not_running_witness:
  "\<not> isRunning (stop tracker100)
   \<and> evaluateTiming (stop tracker100) (reading 1605) 1605
       = \<lparr>accuracy = Off, nearestBeat = 1, offset = 0, barNumber = 0\<rparr>"
  using evaluateTiming_not_running [of "stop tracker100" "reading 1605" 1605]
  by (simp add: tracker_defs)


section \<open>The position query\<close>

lemma getCurrentBeatInfo_shape:
  "getCurrentBeatInfo s c =
     \<lparr>beat = js_rem \<lfloor>totalBeats (getCurrentBeatInfo s c)\<rfloor> 4 + 1,
      progress = js_rem1 (totalBeats (getCurrentBeatInfo s c)),
      barNumberB = \<lfloor>totalBeats (getCurrentBeatInfo s c) / 4\<rfloor>,
      totalBeats = totalBeats (getCurrentBeatInfo s c)\<rparr>"
  unfolding getCurrentBeatInfo_def Let_def Math_floor_def
  by (simp add: js_rem_def js_rem1_def)

lemma getCurrentBeatInfo_totalBeats:
  "isRunning s \<Longrightarrow> startTime s \<noteq> None \<Longrightarrow> \<not> isPaused s \<Longrightarrow>
   totalBeats (getCurrentBeatInfo s c) = elapsedMs s c / (60000 / bpm s)"
  unfolding getCurrentBeatInfo_def elapsedMs_def Let_def by auto

text \<open>
  C2. For a tempo above 0 and an elapsed beat count \<open>B\<close> that is not negative, the
  position query gives the beat \<open>(floor(B) mod 4) + 1\<close>, one of 1, 2, 3, 4, and the bar
  \<open>floor(B / 4)\<close>, which does not decrease when \<open>B\<close> grows. \<open>B\<close> is the count the
  query itself reports; on a running transport that is not paused it is the elapsed time
  over the beat duration.
\<close>

theorem getCurrentBeatInfo_position:
  assumes T: "0 < bpm s"
    and B: "B = totalBeats (getCurrentBeatInfo s c)" "0 \<le> B"
    and B': "B' = totalBeats (getCurrentBeatInfo s c')" "B \<le> B'"
  shows "beat (getCurrentBeatInfo s c) = \<lfloor>B\<rfloor> mod 4 + 1
       \<and> beat (getCurrentBeatInfo s c) \<in> {1, 2, 3, 4}
       \<and> barNumberB (getCurrentBeatInfo s c) = \<lfloor>B / 4\<rfloor>
       \<and> barNumberB (getCurrentBeatInfo s c) \<le> barNumberB (getCurrentBeatInfo s c')
       \<and> (isRunning s \<and> startTime s \<noteq> None \<and> \<not> isPaused s \<longrightarrow>
            B = elapsedMs s c / (60000 / bpm s))"
proof -
  have f: "0 \<le> \<lfloor>B\<rfloor>" using B(2) by simp
  have m: "\<lfloor>B\<rfloor> mod 4 \<in> {0, 1, 2, 3}"
    using pos_mod_bound [of 4 "\<lfloor>B\<rfloor>"] pos_mod_sign [of 4 "\<lfloor>B\<rfloor>"] by auto
  have mono: "\<lfloor>B / 4\<rfloor> \<le> \<lfloor>B' / 4\<rfloor>"
    using B'(2) by (intro floor_mono) simp
  have 1: "beat (getCurrentBeatInfo s c) = js_rem \<lfloor>B\<rfloor> 4 + 1"
    by (subst getCurrentBeatInfo_shape) (simp add: B(1))
  have 2: "barNumberB (getCurrentBeatInfo s c) = \<lfloor>B / 4\<rfloor>"
    by (subst getCurrentBeatInfo_shape) (simp add: B(1))
  have 3: "barNumberB (getCurrentBeatInfo s c') = \<lfloor>B' / 4\<rfloor>"
    by (subst getCurrentBeatInfo_shape) (simp add: B'(1))
  show ?thesis
    unfolding 1 2 3 using f m mono B(1) getCurrentBeatInfo_totalBeats [of s c]
    by (auto simp: js_rem_nonneg)
qed

theorem getCurrentBeatInfo_position_witness:
  "0 < bpm tracker100
   \<and> totalBeats (getCurrentBeatInfo tracker100 (reading 2500)) = 5 / 2
   \<and> totalBeats (getCurrentBeatInfo tracker100 (reading 3400)) = 4
   \<and> beat (getCurrentBeatInfo tracker100 (reading 2500)) = 3
   \<and> barNumberB (getCurrentBeatInfo tracker100 (reading 2500)) = 0
   \<and> barNumberB (getCurrentBeatInfo tracker100 (reading 2500))
       \<le> barNumberB (getCurrentBeatInfo tracker100 (reading 3400))"
proof -
  have b: "totalBeats (getCurrentBeatInfo tracker100 (reading 2500)) = 5 / 2"
    "totalBeats (getCurrentBeatInfo tracker100 (reading 3400)) = 4"
    by (simp_all add: tracker_defs getCurrentBeatInfo_def)
  have t: "0 < bpm tracker100" by (simp add: tracker_defs)
  show ?thesis
    using getCurrentBeatInfo_position [OF t b(1)[symmetric] _ b(2)[symmetric]] b t
    by simp
qed


section \<open>The transport clock: start, pause and resume\<close>

lemma idle_clear_op: "idle_clear s \<Longrightarrow> idle_clear (apply_op s x)"
  by (cases x)
    (auto simp: idle_clear_def start_def stop_def pause_def resume_def setBPM_def
      setAudioContext_def Let_def)

lemma idle_clear_foldl: "idle_clear s \<Longrightarrow> idle_clear (foldl apply_op s ops)"
  by (induction ops arbitrary: s) (simp_all add: idle_clear_op)

lemma idle_clear_new: "idle_clear (BeatTracker_new b)"
  by (simp add: idle_clear_def BeatTracker_new_def)

lemma configured_op: "configured s \<Longrightarrow> configured (apply_op s x)"
  by (cases x)
    (auto simp: configured_def start_def stop_def pause_def resume_def setBPM_def
      setAudioContext_def Let_def)

lemma configured_foldl: "configured s \<Longrightarrow> configured (foldl apply_op s ops)"
  by (induction ops arbitrary: s) (simp_all add: configured_op)

text \<open>
  Every state reached from a new tracker has the beat duration of its tempo and the
  default windows, which is what the comparison of \<open>evaluateTiming\<close> with the reference
  algorithm assumes.
\<close>

lemma configured_reachable: "configured (apply_ops ops (BeatTracker_new b))"
  unfolding apply_ops_def
  by (rule configured_foldl) (simp add: configured_def BeatTracker_new_def)

text \<open>
  C3. On a running transport that is not paused, with no tempo change: pausing, then
  resuming \<open>D\<close> later (in the units of the transport's clock), leaves every later position
  query equal to the query of the transport that never paused, asked \<open>D\<close> earlier.
  \<open>pause\<close> records the reading as \<open>pausedAt\<close>; \<open>resume\<close> adds \<open>now - pausedAt\<close> to the
  accumulated pause; neither touches the origin.
\<close>

theorem pause_resume_keeps_phase:
  assumes run: "isRunning s" "\<not> isPaused s"
    and D: "D = clock s cr - clock s cp"
  shows "getCurrentBeatInfo (resume cr (pause cp s)) c = getCurrentBeatInfo s (earlier D c)
       \<and> pausedAt (pause cp s) = Some (clock s cp) \<and> isPaused (pause cp s)
       \<and> startTime (pause cp s) = startTime s
       \<and> startTime (resume cr (pause cp s)) = startTime s
       \<and> totalPausedTime (resume cr (pause cp s)) = totalPausedTime s + D
       \<and> \<not> isPaused (resume cr (pause cp s))"
  using run unfolding D
  by (auto simp: getCurrentBeatInfo_def pause_def resume_def clock_def earlier_def Let_def
      diff_diff_eq add.assoc add.commute add.left_commute)

theorem pause_resume_keeps_phase_witness:
  "isRunning tracker100 \<and> \<not> isPaused tracker100
   \<and> getCurrentBeatInfo resumed100 (reading 7500)
       = getCurrentBeatInfo tracker100 (earlier 4000 (reading 7500))
   \<and> performance_now (earlier 4000 (reading 7500)) = 3500
   \<and> totalPausedTime resumed100 = 4000
   \<and> startTime resumed100 = Some 1000"
  using pause_resume_keeps_phase [of tracker100 4000 "reading 6000" "reading 2000" "reading 7500"]
  by (simp add: tracker_defs)

text \<open>
  C6, as the claim states it, fails: \<open>start\<close> leaves the accumulated pause as it is. After
  a start at 1000, a pause from 2000 to 6000 and a second \<open>start\<close> at 6000 the accumulated
  pause is still 4000.
\<close>

theorem start_keeps_pause_total:
  "totalPausedTime (start (reading 6000) resumed100) = 4000"
  by (simp add: tracker_defs)

text \<open>
  C6, amended. \<open>start\<close> sets the origin to the current reading of the transport's time
  base, sets \<open>isRunning\<close> and zeroes the bar count, and changes nothing else: the pause
  bookkeeping is what it was. It is \<open>stop\<close> that clears the accumulated pause, so after
  \<open>stop\<close> followed by \<open>start\<close> the pause state is reset; and since a new tracker has no
  pause recorded either, \<open>start\<close> on any reachable transport that is not running gives a
  transport with no pause recorded.
\<close>

theorem start_sets_origin:
  "start c s = s\<lparr>startTime := Some (clock s c), isRunning := True, barCount := 0\<rparr>
   \<and> totalPausedTime (start c s) = totalPausedTime s
   \<and> isPaused (start c s) = isPaused s
   \<and> pausedAt (start c s) = pausedAt s
   \<and> start c (stop s) =
       s\<lparr>startTime := Some (clock s c), isRunning := True, barCount := 0,
         isPaused := False, pausedAt := None, totalPausedTime := 0\<rparr>
   \<and> (\<not> isRunning (apply_ops ops (BeatTracker_new b)) \<longrightarrow>
        totalPausedTime (start c (apply_ops ops (BeatTracker_new b))) = 0
        \<and> \<not> isPaused (start c (apply_ops ops (BeatTracker_new b)))
        \<and> pausedAt (start c (apply_ops ops (BeatTracker_new b))) = None)"
proof -
  have "idle_clear (apply_ops ops (BeatTracker_new b))"
    unfolding apply_ops_def by (rule idle_clear_foldl [OF idle_clear_new])
  then show ?thesis
    by (simp add: idle_clear_def start_def stop_def clock_def Let_def)
qed

theorem start_sets_origin_witness:
  "startTime (start (reading 6000) resumed100) = Some 6000
   \<and> isRunning (start (reading 6000) resumed100)
   \<and> totalPausedTime (start (reading 6000) (stop resumed100)) = 0
   \<and> pausedAt (start (reading 6000) (stop resumed100)) = None
   \<and> \<not> isRunning (apply_ops [TStart (reading 1000), TPause (reading 2000),
        TResume (reading 6000), TStop] (BeatTracker_new 100))
   \<and> totalPausedTime (start (reading 7000) (apply_ops [TStart (reading 1000),
        TPause (reading 2000), TResume (reading 6000), TStop] (BeatTracker_new 100))) = 0"
  using start_sets_origin [of "reading 6000" resumed100 "[]" 100]
    start_sets_origin [of "reading 7000" resumed100 "[TStart (reading 1000), TPause (reading 2000),
        TResume (reading 6000), TStop]" 100]
  by (simp add: tracker_defs apply_ops_def)

text \<open>
  The guarded transitions: \<open>resume\<close> on a transport that is not paused, and \<open>pause\<close> on
  one that is not running or is already paused, leave the whole state unchanged.
\<close>

lemma guarded_transitions:
  "(\<not> isPaused s \<longrightarrow> resume c s = s) \<and> (\<not> isRunning s \<or> isPaused s \<longrightarrow> pause c s = s)"
  by (simp add: resume_def pause_def Let_def)

text \<open>
  C7. The claim: an invalid transition of the transport is a silent no-op, in particular
  \<open>start\<close> on a transport that is already running leaves the whole state unchanged.
  \<open>pause\<close> and \<open>resume\<close> are guarded so; \<open>start\<close> is not. Called at 2000 on a transport
  that has been running since 1000, it moves the origin to 2000, so that every later
  position is counted from the second call.
\<close>

theorem start_while_running_restarts:
  "isRunning tracker100
   \<and> start (reading 2000) tracker100 \<noteq> tracker100
   \<and> startTime tracker100 = Some 1000
   \<and> startTime (start (reading 2000) tracker100) = Some 2000
   \<and> totalBeats (getCurrentBeatInfo tracker100 (reading 2600)) = 8 / 3
   \<and> totalBeats (getCurrentBeatInfo (start (reading 2000) tracker100) (reading 2600)) = 1"
  by (simp add: tracker_defs getCurrentBeatInfo_def)

theorem start_while_running_restarts_witness:
  "startTime (start (reading 2000) tracker100) \<noteq> startTime tracker100
   \<and> totalBeats (getCurrentBeatInfo (start (reading 2000) tracker100) (reading 2600))
       \<noteq> totalBeats (getCurrentBeatInfo tracker100 (reading 2600))"
  using start_while_running_restarts by simp


section \<open>The input handler\<close>

lemma noteStarts_append: "noteStarts (xs @ ys) = noteStarts xs @ noteStarts ys"
  by (induction xs rule: noteStarts.induct) simp_all

lemma triggerNoteStart_cases:
  "(triggerNoteStart now h = (h, []) \<and> (isHolding h \<or> now - lastTriggerTime h < debounceMs h))
   \<or> (triggerNoteStart now h =
         (h\<lparr>isHolding := True, holdStartTime := Some now, lastTriggerTime := now\<rparr>,
          if onNoteStart h then [NoteStart now] else [])
       \<and> \<not> isHolding h \<and> lastTriggerTime h + debounceMs h \<le> now)"
  unfolding triggerNoteStart_def by auto

lemma triggerNoteEnd_keeps:
  "lastTriggerTime (fst (triggerNoteEnd now h)) = lastTriggerTime h
   \<and> debounceMs (fst (triggerNoteEnd now h)) = debounceMs h
   \<and> onNoteStart (fst (triggerNoteEnd now h)) = onNoteStart h
   \<and> noteStarts (snd (triggerNoteEnd now h)) = []"
  unfolding triggerNoteEnd_def by simp

lemma stepped_start: "stepped h (triggerNoteStart now h)"
  using triggerNoteStart_cases [of now h] unfolding stepped_def by auto

lemma stepped_end: "stepped h (triggerNoteEnd now h)"
  using triggerNoteEnd_keeps [of now h] unfolding stepped_def by simp

lemma stepped_id: "stepped h (h, [])"
  unfolding stepped_def by simp

lemma stepped_handleEvent: "stepped h (handleEvent now ev h)"
  by (cases ev) (simp_all add: stepped_start stepped_end stepped_id)

lemma stepped_step: "stepped h (step a h)"
proof (cases a)
  case (Dispatch now ev)
  then show ?thesis by (simp add: stepped_handleEvent stepped_id)
next
  case StartInput
  then show ?thesis by (simp add: stepped_def startInput_def)
next
  case StopInput
  then show ?thesis by (simp add: stepped_def stopInput_def)
qed

text \<open>
  Along any sequence of events, starts and stops, the \<open>onNoteStart\<close> calls are at least
  the debounce interval apart, and the first of them is at least the interval after the
  last trigger before the sequence.
\<close>

lemma run_spaced:
  "(onNoteStart h \<longrightarrow>
      successively (\<lambda>a b. debounceMs h \<le> b - a) (noteStarts (snd (run acts h)))
      \<and> (\<forall>t \<in> set (take 1 (noteStarts (snd (run acts h)))). lastTriggerTime h + debounceMs h \<le> t))
   \<and> (\<not> onNoteStart h \<longrightarrow> noteStarts (snd (run acts h)) = [])"
proof (induction acts arbitrary: h)
  case Nil
  show ?case by simp
next
  case (Cons a acts)
  obtain h1 out1 where s: "step a h = (h1, out1)" by (cases "step a h")
  obtain h2 out2 where r: "run acts h1 = (h2, out2)" by (cases "run acts h1")
  have st: "stepped h (h1, out1)" using stepped_step [of h a] s by simp
  have out: "noteStarts (snd (run (a # acts) h)) = noteStarts out1 @ noteStarts out2"
    using s r by (simp add: noteStarts_append)
  have IH: "(onNoteStart h1 \<longrightarrow>
      successively (\<lambda>a b. debounceMs h1 \<le> b - a) (noteStarts out2)
      \<and> (\<forall>t \<in> set (take 1 (noteStarts out2)). lastTriggerTime h1 + debounceMs h1 \<le> t))
   \<and> (\<not> onNoteStart h1 \<longrightarrow> noteStarts out2 = [])"
    using Cons.IH [of h1] r by simp
  show ?case
  proof (cases "onNoteStart h")
    case False
    then show ?thesis using st IH unfolding out stepped_def by auto
  next
    case True
    from st consider
      (quiet) "noteStarts out1 = []" "lastTriggerTime h1 = lastTriggerTime h"
      | (fired) t where "noteStarts out1 = [t]" "lastTriggerTime h1 = t"
          "lastTriggerTime h + debounceMs h \<le> t"
      using True unfolding stepped_def by auto
    then show ?thesis
    proof cases
      case quiet
      then show ?thesis using st IH True unfolding out stepped_def by simp
    next
      case fired
      have d: "debounceMs h1 = debounceMs h" "onNoteStart h1"
        using st True unfolding stepped_def by simp_all
      show ?thesis
        using fired IH d True unfolding out
        by (cases "noteStarts out2") (auto simp: successively_Cons)
    qed
  qed
qed

text \<open>
  C9. A trigger that arrives while a note is held, or less than the debounce interval
  (100 ms by default) after the previous trigger, is suppressed: no callback is called and
  the handler is unchanged. Any other trigger calls \<open>onNoteStart\<close> exactly once (when a
  callback is registered) and records the hold. So along any sequence of events two
  \<open>onNoteStart\<close> calls are never less than the interval apart.
\<close>

theorem triggerNoteStart_debounced:
  "((isHolding h \<or> now - lastTriggerTime h < debounceMs h) \<longrightarrow> triggerNoteStart now h = (h, []))
   \<and> (\<not> (isHolding h \<or> now - lastTriggerTime h < debounceMs h) \<longrightarrow>
        triggerNoteStart now h =
          (h\<lparr>isHolding := True, holdStartTime := Some now, lastTriggerTime := now\<rparr>,
           if onNoteStart h then [NoteStart now] else []))
   \<and> successively (\<lambda>a b. debounceMs h \<le> b - a) (noteStarts (snd (run acts h)))"
proof -
  have "successively (\<lambda>a b. debounceMs h \<le> b - a) (noteStarts (snd (run acts h)))"
    using run_spaced [of h acts] by (cases "onNoteStart h") simp_all
  then show ?thesis unfolding triggerNoteStart_def by auto
qed

theorem triggerNoteStart_debounced_witness:
  "triggerNoteStart 500 handler0
     = (handler0\<lparr>isHolding := True, holdStartTime := Some 500, lastTriggerTime := 500\<rparr>,
        [NoteStart 500])
   \<and> triggerNoteStart 550 (handler0\<lparr>lastTriggerTime := 500\<rparr>)
     = (handler0\<lparr>lastTriggerTime := 500\<rparr>, [])
   \<and> triggerNoteStart 700 (handler0\<lparr>isHolding := True, lastTriggerTime := 500\<rparr>)
     = (handler0\<lparr>isHolding := True, lastTriggerTime := 500\<rparr>, [])
   \<and> noteStarts (snd (run [Dispatch 500 TouchStart, Dispatch 520 TouchEnd,
                           Dispatch 550 TouchStart, Dispatch 600 (KeyDown ''Space'' False),
                           Dispatch 650 (KeyDown ''Space'' False)] handler0)) = [500, 600]
   \<and> successively (\<lambda>a b. debounceMs handler0 \<le> b - a) [500, 600]"
proof -
  have r: "noteStarts (snd (run [Dispatch 500 TouchStart, Dispatch 520 TouchEnd,
                           Dispatch 550 TouchStart, Dispatch 600 (KeyDown ''Space'' False),
                           Dispatch 650 (KeyDown ''Space'' False)] handler0)) = [500, 600]"
    by (simp add: handler0_def startInput_def InputHandler_new_def triggerNoteStart_def
        triggerNoteEnd_def)
  show ?thesis
    using triggerNoteStart_debounced [of handler0 500 "[Dispatch 500 TouchStart, Dispatch 520 TouchEnd,
                           Dispatch 550 TouchStart, Dispatch 600 (KeyDown ''Space'' False),
                           Dispatch 650 (KeyDown ''Space'' False)]"]
      triggerNoteStart_debounced [of "handler0\<lparr>lastTriggerTime := 500\<rparr>" 550 "[]"]
      triggerNoteStart_debounced [of "handler0\<lparr>isHolding := True, lastTriggerTime := 500\<rparr>" 700 "[]"]
    unfolding r
    by (simp add: handler0_def startInput_def InputHandler_new_def)
qed


section \<open>The instrument table\<close>

lemmas instrument_defs =
  INSTRUMENTS_values_def INSTRUMENTS_melody_def INSTRUMENTS_pad_def INSTRUMENTS_bass_def
  INSTRUMENTS_percussion_def

text \<open>
  C10. \<open>getInstrumentByBeat\<close> answers for every value: the result is always an instrument
  of the table, it is the bass for every value other than the numbers 1, 2, 3 and 4 (0, 5,
  a fraction, a string, \<open>undefined\<close>), and for those four it is the instrument of that
  beat. So \<open>playNote\<close> always has an instrument to read.
\<close>

theorem getInstrumentByBeat_total:
  "getInstrumentByBeat b \<in> set INSTRUMENTS_values
   \<and> (b \<notin> {JNum 1, JNum 2, JNum 3, JNum 4} \<longrightarrow> getInstrumentByBeat b = INSTRUMENTS_bass)
   \<and> (b \<in> {JNum 1, JNum 2, JNum 3, JNum 4} \<longrightarrow> JNum (beatI (getInstrumentByBeat b)) = b)"
  unfolding getInstrumentByBeat_def
  by (auto simp: instrument_defs)

theorem getInstrumentByBeat_total_witness:
  "getInstrumentByBeat (JNum 0) = INSTRUMENTS_bass
   \<and> getInstrumentByBeat (JNum 5) = INSTRUMENTS_bass
   \<and> getInstrumentByBeat (JNum (5 / 2)) = INSTRUMENTS_bass
   \<and> getInstrumentByBeat JUndefined = INSTRUMENTS_bass
   \<and> beatI (getInstrumentByBeat (JNum 1)) = 1
   \<and> getInstrumentByBeat (JNum 4) \<in> set INSTRUMENTS_values"
  using getInstrumentByBeat_total [of "JNum 0"] getInstrumentByBeat_total [of "JNum 5"]
    getInstrumentByBeat_total [of "JNum (5 / 2)"] getInstrumentByBeat_total [of JUndefined]
    getInstrumentByBeat_total [of "JNum 1"] getInstrumentByBeat_total [of "JNum 4"]
  by simp


section \<open>The lookahead scheduler\<close>

lemma engine0_eq: "engine0 = AudioEngine_new\<lparr>isInitialized := True\<rparr>"
  by (simp add: engine0_def initialize_def AudioEngine_new_def)

lemma loopTime_shift: "loopTime rd len next (Suc k) = loopTime rd len (rd (next + len)) k"
  by (induction k) simp_all

lemma playDrumLoop_clock:
  "playDrumLoop c r (Some t) e = playDrumLoop c' r (Some t) e"
  by (simp add: playDrumLoop_def)

lemma playDrumLoop_next:
  "playDrumLoop c r tm (e\<lparr>nextLoopTime := x\<rparr>) = (playDrumLoop c r tm e)\<lparr>nextLoopTime := x\<rparr>"
  by (simp add: playDrumLoop_def createSources_def Let_def)

lemma playDrumLoop_fields:
  "isDrumsPlaying (playDrumLoop c r tm e) = isDrumsPlaying e"
  "beatDurationE (playDrumLoop c r tm e) = beatDurationE e"
  "scheduleAheadTime (playDrumLoop c r tm e) = scheduleAheadTime e"
  "nextLoopTime (playDrumLoop c r tm e) = nextLoopTime e"
  "genre (playDrumLoop c r tm e) = genre e"
  "stopCalled (playDrumLoop c r tm e) = stopCalled e"
  "nextSource (playDrumLoop c r tm e) = nextSource e + drumSources (drumStyle (genre e)) r"
  "drumStarts (playDrumLoop c r (Some t) e) = drumStarts e @ [t]"
  "activeLoops (playDrumLoop c r tm e) (JStr ''drums'')
     = Some [nextSource e ..< nextSource e + drumSources (drumStyle (genre e)) r]"
  by (simp_all add: playDrumLoop_def createSources_def Let_def)

lemma renderMeasures_simps:
  "renderMeasures c rolls [] e = e"
  "renderMeasures c rolls (t # ts) e = renderMeasures c rolls ts (playDrumLoop c (rolls t) (Some t) e)"
  "renderMeasures c rolls (ts @ [t]) e = playDrumLoop c (rolls t) (Some t) (renderMeasures c rolls ts e)"
  by (simp_all add: renderMeasures_def)

lemma renderMeasures_next:
  "renderMeasures c rolls ts (e\<lparr>nextLoopTime := x\<rparr>) = (renderMeasures c rolls ts e)\<lparr>nextLoopTime := x\<rparr>"
  by (induction ts arbitrary: e) (simp_all add: renderMeasures_simps playDrumLoop_next)

lemma renderMeasures_fields:
  "isDrumsPlaying (renderMeasures c rolls ts e) = isDrumsPlaying e"
  "genre (renderMeasures c rolls ts e) = genre e"
  "stopCalled (renderMeasures c rolls ts e) = stopCalled e"
  "drumStarts (renderMeasures c rolls ts e) = drumStarts e @ ts"
  "nextSource (renderMeasures c rolls ts e)
     = nextSource e + sum_list (map (\<lambda>t. drumSources (drumStyle (genre e)) (rolls t)) ts)"
  by (induction ts arbitrary: e) (simp_all add: renderMeasures_simps playDrumLoop_fields)

lemma renderMeasures_last:
  assumes "ts \<noteq> []"
  shows "activeLoops (renderMeasures c rolls ts e) (JStr ''drums'')
     = Some [nextSource (renderMeasures c rolls ts e) - drumSources (drumStyle (genre e)) (rolls (last ts))
             ..< nextSource (renderMeasures c rolls ts e)]"
proof -
  obtain xs x where ts: "ts = xs @ [x]" using assms by (metis rev_exhaust)
  show ?thesis
    unfolding ts renderMeasures_simps(3)
    by (simp add: playDrumLoop_fields renderMeasures_fields)
qed

text \<open>
  The loop of the scheduler ends when the horizon stays below a bound \<open>H\<close> and adding a
  measure advances by at least \<open>gain\<close> below that bound; it renders the measure of every
  value \<open>nextLoopTime\<close> takes before the first one that is not below the horizon.
\<close>

lemma scheduler_loop_result:
  assumes run: "isDrumsPlaying e"
    and bounded: "\<And>j. rd (ctxTime j + scheduleAheadTime e) \<le> H"
    and gain: "0 < gain"
    and progress: "\<And>x. x < H \<Longrightarrow> x + gain \<le> rd (x + rd (beatDurationE e * 4))"
    and n: "nat \<lceil>(H - nextLoopTime e) / gain\<rceil> \<le> n"
  shows "\<exists>N. (\<forall>k<N. loopTime rd (rd (beatDurationE e * 4)) (nextLoopTime e) k
                    < rd (ctxTime (i + k) + scheduleAheadTime e))
           \<and> \<not> loopTime rd (rd (beatDurationE e * 4)) (nextLoopTime e) N
                 < rd (ctxTime (i + N) + scheduleAheadTime e)
           \<and> scheduler_loop rd ctxTime rolls i e
               = Some ((renderMeasures (ctxTime 0) rolls
                          (map (loopTime rd (rd (beatDurationE e * 4)) (nextLoopTime e)) [0 ..< N]) e)
                       \<lparr>nextLoopTime := loopTime rd (rd (beatDurationE e * 4)) (nextLoopTime e) N\<rparr>)"
  using run bounded progress n
proof (induction n arbitrary: e i)
  case 0
  have "\<lceil>(H - nextLoopTime e) / gain\<rceil> \<le> 0" using "0.prems"(4) by simp
  then have "(H - nextLoopTime e) / gain \<le> 0" by (simp add: ceiling_le_iff)
  then have "H \<le> nextLoopTime e" using gain by (simp add: field_simps)
  then have out: "\<not> nextLoopTime e < rd (ctxTime i + scheduleAheadTime e)"
    using "0.prems"(2) [of i] by simp
  have "scheduler_loop rd ctxTime rolls i e = Some e"
    by (subst scheduler_loop.simps) (simp add: out)
  then show ?case using out
    by (intro exI [of _ 0]) (simp add: renderMeasures_simps)
next
  case (Suc n)
  let ?len = "rd (beatDurationE e * 4)"
  let ?T = "loopTime rd ?len (nextLoopTime e)"
  show ?case
  proof (cases "nextLoopTime e < rd (ctxTime i + scheduleAheadTime e)")
    case False
    have "scheduler_loop rd ctxTime rolls i e = Some e"
      by (subst scheduler_loop.simps) (simp add: False)
    then show ?thesis using False
      by (intro exI [of _ 0]) (simp add: renderMeasures_simps)
  next
    case True
    define e1 where "e1 = playDrumLoop (ctxTime 0) (rolls (nextLoopTime e)) (Some (nextLoopTime e)) e"
    define e2 where "e2 = e1\<lparr>nextLoopTime := rd (nextLoopTime e + ?len)\<rparr>"
    have sl: "scheduleLoop (ctxTime i) (rolls (nextLoopTime e)) (nextLoopTime e) e = e1"
      using Suc.prems(1) unfolding scheduleLoop_def e1_def
      by (simp add: playDrumLoop_clock [of "ctxTime i" _ _ _ "ctxTime 0"])
    have f1: "beatDurationE e1 = beatDurationE e" "nextLoopTime e1 = nextLoopTime e"
      "isDrumsPlaying e1" "scheduleAheadTime e1 = scheduleAheadTime e"
      unfolding e1_def using Suc.prems(1) by (simp_all add: playDrumLoop_fields)
    have f2: "beatDurationE e2 = beatDurationE e" "nextLoopTime e2 = rd (nextLoopTime e + ?len)"
      "isDrumsPlaying e2" "scheduleAheadTime e2 = scheduleAheadTime e"
      unfolding e2_def using f1 by simp_all
    have unf: "scheduler_loop rd ctxTime rolls i e = scheduler_loop rd ctxTime rolls (Suc i) e2"
      by (subst scheduler_loop.simps) (simp add: True sl f1 e2_def Let_def)
    have below: "nextLoopTime e < H" using True Suc.prems(2) [of i] by simp
    have adv: "nextLoopTime e + gain \<le> nextLoopTime e2"
      unfolding f2 using Suc.prems(3) [OF below] .
    have "(H - nextLoopTime e2) / gain \<le> (H - nextLoopTime e - gain) / gain"
      using adv gain by (intro divide_right_mono) simp_all
    also have "\<dots> = (H - nextLoopTime e) / gain - 1"
      using gain by (simp add: diff_divide_distrib)
    finally have "(H - nextLoopTime e2) / gain \<le> (H - nextLoopTime e) / gain - 1" .
    then have "\<lceil>(H - nextLoopTime e2) / gain\<rceil> \<le> \<lceil>(H - nextLoopTime e) / gain\<rceil> - 1"
      by (metis ceiling_diff_one ceiling_mono)
    then have m: "nat \<lceil>(H - nextLoopTime e2) / gain\<rceil> \<le> n"
      using Suc.prems(4) by linarith
    have b2: "\<And>j. rd (ctxTime j + scheduleAheadTime e2) \<le> H"
      unfolding f2 by (rule Suc.prems(2))
    have p2: "\<And>x. x < H \<Longrightarrow> x + gain \<le> rd (x + rd (beatDurationE e2 * 4))"
      unfolding f2 by (rule Suc.prems(3))
    let ?T' = "loopTime rd ?len (rd (nextLoopTime e + ?len))"
    obtain N' where N': "\<forall>k<N'. ?T' k < rd (ctxTime (Suc i + k) + scheduleAheadTime e)"
      "\<not> ?T' N' < rd (ctxTime (Suc i + N') + scheduleAheadTime e)"
      "scheduler_loop rd ctxTime rolls (Suc i) e2
         = Some ((renderMeasures (ctxTime 0) rolls (map ?T' [0 ..< N']) e2)\<lparr>nextLoopTime := ?T' N'\<rparr>)"
      using Suc.IH [OF f2(3) b2 p2 m, of "Suc i"] unfolding f2 by blast
    have T: "\<And>k. ?T (Suc k) = ?T' k" by (rule loopTime_shift)
    have lst: "map ?T [0 ..< Suc N'] = nextLoopTime e # map ?T' [0 ..< N']"
      unfolding map_upt_Suc T by simp
    have ren: "(renderMeasures (ctxTime 0) rolls (map ?T' [0 ..< N']) e2)\<lparr>nextLoopTime := ?T' N'\<rparr>
        = (renderMeasures (ctxTime 0) rolls (map ?T [0 ..< Suc N']) e)\<lparr>nextLoopTime := ?T (Suc N')\<rparr>"
      unfolding lst renderMeasures_simps(2) e2_def renderMeasures_next T e1_def by simp
    have due: "\<forall>k<Suc N'. ?T k < rd (ctxTime (i + k) + scheduleAheadTime e)"
    proof (intro allI impI)
      fix k assume "k < Suc N'"
      then show "?T k < rd (ctxTime (i + k) + scheduleAheadTime e)"
        using True N'(1) T by (cases k) simp_all
    qed
    have fin: "\<not> ?T (Suc N') < rd (ctxTime (i + Suc N') + scheduleAheadTime e)"
      using N'(2) unfolding T by simp
    show ?thesis
      using due fin unfolding unf N'(3) ren by (intro exI [of _ "Suc N'"]) simp
  qed
qed

lemma increasing_upto:
  fixes f :: "nat \<Rightarrow> real"
  assumes "\<And>k. k < N \<Longrightarrow> f k < f (Suc k)"
  shows "j < k \<Longrightarrow> k \<le> N \<Longrightarrow> f j < f k"
proof (induction k)
  case 0
  then show ?case by simp
next
  case (Suc k)
  have s: "f k < f (Suc k)" using assms [of k] Suc.prems(2) by simp
  show ?case
  proof (cases "j = k")
    case True
    then show ?thesis using s by simp
  next
    case False
    then have "f j < f k" using Suc by simp
    then show ?thesis using s by simp
  qed
qed

text \<open>
  C4. With the drums running, one pass of the scheduler ends and does exactly this. Let
  \<open>t 0\<close> be \<open>nextLoopTime\<close> at entry and each \<open>t (k + 1)\<close> the sum of \<open>t k\<close> and one
  measure (\<open>len\<close>, 4 beats at the current tempo), and let \<open>horizon k\<close> be
  \<open>ctx.currentTime + scheduleAheadTime\<close> as the \<open>k\<close>-th test of the loop reads it. For
  \<open>k = 0, 1, ...\<close>, as long as \<open>t k\<close> is below \<open>horizon k\<close>, the pass renders the drum
  measure for time \<open>t k\<close> with \<open>playDrumLoop\<close> (which creates its sources and registers
  them under \<open>'drums'\<close>) and advances \<open>nextLoopTime\<close> by one measure. So, however late the
  pass comes, the measures it renders are those of the due times \<open>t 0, ..., t (N - 1)\<close>: in
  strictly increasing order, each exactly once, none left out; nothing is stopped;
  afterwards \<open>nextLoopTime\<close> is \<open>t N\<close>, the first value not below the horizon, and the
  timer is armed again. The pass ends provided the horizon stays below some bound \<open>H\<close>
  while it runs and adding a measure advances the time by at least some \<open>gain\<close> above 0
  (with exact arithmetic, whenever the measure has a positive length).
\<close>

theorem scheduler_pass_catches_up:
  assumes run: "isDrumsPlaying e" and init: "isInitialized e"
    and len: "len = rd (beatDurationE e * 4)"
    and t: "t = loopTime rd len (nextLoopTime e)"
    and hz: "horizon = (\<lambda>i. rd (ctxTime i + scheduleAheadTime e))"
    and bounded: "\<And>i. horizon i \<le> H"
    and gain: "0 < gain" "\<And>x. x < H \<Longrightarrow> x + gain \<le> rd (x + len)"
  shows "\<exists>N e'. scheduler rd ctxTime rolls e = Some e'
           \<and> (\<forall>k<N. t k < horizon k) \<and> \<not> t N < horizon N
           \<and> e' = setTimeout ((renderMeasures (ctxTime 0) rolls (map t [0 ..< N]) e)\<lparr>nextLoopTime := t N\<rparr>)
           \<and> drumStarts e' = drumStarts e @ map t [0 ..< N]
           \<and> nextLoopTime e' = t N
           \<and> nextSource e'
               = nextSource e
                 + sum_list (map (\<lambda>x. drumSources (drumStyle (genre e)) (rolls x)) (map t [0 ..< N]))
           \<and> (0 < N \<longrightarrow> activeLoops e' (JStr ''drums'')
                 = Some [nextSource e' - drumSources (drumStyle (genre e)) (rolls (t (N - 1)))
                         ..< nextSource e'])
           \<and> stopCalled e' = stopCalled e
           \<and> (\<forall>k<N. t (Suc k) = rd (t k + len) \<and> t k < t (Suc k))
           \<and> sorted_wrt (<) (map t [0 ..< N]) \<and> distinct (map t [0 ..< N])"
proof -
  have b: "\<And>j. rd (ctxTime j + scheduleAheadTime e) \<le> H"
    using bounded unfolding hz by simp
  have p: "\<And>x. x < H \<Longrightarrow> x + gain \<le> rd (x + rd (beatDurationE e * 4))"
    using gain(2) unfolding len by simp
  obtain N where N: "\<forall>k<N. t k < horizon k" "\<not> t N < horizon N"
    and loop: "scheduler_loop rd ctxTime rolls 0 e
       = Some ((renderMeasures (ctxTime 0) rolls (map t [0 ..< N]) e)\<lparr>nextLoopTime := t N\<rparr>)"
    using scheduler_loop_result [where rolls = rolls and i = 0 and ctxTime = ctxTime
        and rd = rd and H = H and e = e, OF run b gain(1) p order_refl]
    unfolding t len hz by auto
  define r where "r = renderMeasures (ctxTime 0) rolls (map t [0 ..< N]) e"
  define e' where "e' = setTimeout (r\<lparr>nextLoopTime := t N\<rparr>)"
  have res: "scheduler rd ctxTime rolls e = Some e'"
    using run loop unfolding scheduler_def e'_def r_def by simp
  have ds: "drumStarts e' = drumStarts e @ map t [0 ..< N]"
    and nl: "nextLoopTime e' = t N"
    and ns: "nextSource e' = nextSource e
                 + sum_list (map (\<lambda>x. drumSources (drumStyle (genre e)) (rolls x)) (map t [0 ..< N]))"
    and sc: "stopCalled e' = stopCalled e"
    unfolding e'_def r_def setTimeout_def by (simp_all add: renderMeasures_fields)
  have al: "0 < N \<longrightarrow> activeLoops e' (JStr ''drums'')
                 = Some [nextSource e' - drumSources (drumStyle (genre e)) (rolls (t (N - 1)))
                         ..< nextSource e']"
  proof
    assume "0 < N"
    then have ne: "map t [0 ..< N] \<noteq> []" and la: "last (map t [0 ..< N]) = t (N - 1)"
      by (simp_all add: last_map)
    show "activeLoops e' (JStr ''drums'')
                 = Some [nextSource e' - drumSources (drumStyle (genre e)) (rolls (t (N - 1)))
                         ..< nextSource e']"
      using renderMeasures_last [OF ne, of "ctxTime 0" rolls e]
      unfolding la e'_def r_def setTimeout_def by simp
  qed
  have inc: "\<forall>k<N. t (Suc k) = rd (t k + len) \<and> t k < t (Suc k)"
  proof (intro allI impI)
    fix k assume k: "k < N"
    have "t k < H" using N(1) k bounded [of k] by fastforce
    then have "t k + gain \<le> rd (t k + len)" by (rule gain(2))
    moreover have "t (Suc k) = rd (t k + len)" unfolding t by simp
    ultimately show "t (Suc k) = rd (t k + len) \<and> t k < t (Suc k)" using gain(1) by simp
  qed
  have up: "t k < t (Suc k)" if "k < N" for k
    using inc that by blast
  have mono: "t i < t j" if "i < j" "j < N" for i j
  proof (rule increasing_upto [of N t, OF up that(1)])
    show "j \<le> N" using that(2) by simp
  qed
  have srt: "sorted_wrt (<) (map t [0 ..< N])"
    unfolding sorted_wrt_iff_nth_less using mono by simp
  have dst: "distinct (map t [0 ..< N])" using srt strict_sorted_iff by blast
  show ?thesis
    using res N ds nl ns al sc inc srt dst unfolding e'_def r_def by blast
qed

lemma late_fields:
  "isDrumsPlaying late" "isInitialized late" "beatDurationE late = 6 / 10"
  "scheduleAheadTime late = 1 / 10" "nextLoopTime late = 24 / 10" "drumStarts late = []"
  "nextSource late = 0" "drumStyle (genre late) = ''pop''"
  by (simp_all add: late_def engine0_eq AudioEngine_new_def getGenre_def GENRES_pop_def)

lemma loopTime_late:
  "loopTime (\<lambda>x. x) (24 / 10) (24 / 10) 0 = 24 / 10"
  "loopTime (\<lambda>x. x) (24 / 10) (24 / 10) 1 = 48 / 10"
  "loopTime (\<lambda>x. x) (24 / 10) (24 / 10) 2 = 72 / 10"
  "loopTime (\<lambda>x. x) (24 / 10) (24 / 10) 3 = 96 / 10"
  by (simp_all add: eval_nat_numeral)

text \<open>
  A pass that comes at 8 s, when the next measure was due at 2.4 s (100 BPM, a measure of
  2.4 s, exact arithmetic): the measures of 2.4 s, 4.8 s and 7.2 s are rendered, 28 sources
  each, the last one registered under \<open>'drums'\<close>, and the next is due at 9.6 s.
\<close>

theorem scheduler_pass_catches_up_witness:
  "isDrumsPlaying late \<and> isInitialized late
   \<and> (\<exists>e'. scheduler (\<lambda>x. x) (\<lambda>i. 8) (\<lambda>t. 0) late = Some e'
          \<and> drumStarts e' = [24 / 10, 48 / 10, 72 / 10] \<and> nextLoopTime e' = 96 / 10
          \<and> nextSource e' = 84 \<and> activeLoops e' (JStr ''drums'') = Some [56 ..< 84])"
proof -
  define t where "t = loopTime (\<lambda>x. x) (24 / 10) (24 / 10)"
  have len: "24 / 10 = (\<lambda>x::real. x) (beatDurationE late * 4)" by (simp add: late_fields)
  have t: "t = loopTime (\<lambda>x. x) (24 / 10) (nextLoopTime late)"
    by (simp add: t_def late_fields)
  have b: "\<And>i. (\<lambda>i::nat. (\<lambda>x::real. x) ((\<lambda>i. 8) i + scheduleAheadTime late)) i \<le> 81 / 10"
    by (simp add: late_fields)
  have g: "(0::real) < 24 / 10" by simp
  have p: "\<And>x::real. x < 81 / 10 \<Longrightarrow> x + 24 / 10 \<le> (\<lambda>x. x) (x + 24 / 10)" by simp
  obtain N e' where r: "scheduler (\<lambda>x. x) (\<lambda>i. 8) (\<lambda>t. 0) late = Some e'"
    and due: "\<forall>k<N. t k < 81 / 10" and fin: "\<not> t N < 81 / 10"
    and ds: "drumStarts e' = drumStarts late @ map t [0 ..< N]"
    and nl: "nextLoopTime e' = t N"
    and ns: "nextSource e' = nextSource late
         + sum_list (map (\<lambda>x. drumSources (drumStyle (genre late)) ((\<lambda>t. 0) x)) (map t [0 ..< N]))"
    and al: "0 < N \<longrightarrow> activeLoops e' (JStr ''drums'')
         = Some [nextSource e' - drumSources (drumStyle (genre late)) ((\<lambda>t. 0) (t (N - 1)))
                 ..< nextSource e']"
    using scheduler_pass_catches_up [where e = late and rd = "\<lambda>x. x" and ctxTime = "\<lambda>i. 8"
        and rolls = "\<lambda>t. 0" and H = "81 / 10" and gain = "24 / 10" and len = "24 / 10" and t = t
        and horizon = "\<lambda>i::nat. (\<lambda>x::real. x) ((\<lambda>i. 8) i + scheduleAheadTime late)",
        OF late_fields(1) late_fields(2) len t refl b g p]
    by (auto simp: late_fields)
  have tv: "t 0 = 24 / 10" "t 1 = 48 / 10" "t 2 = 72 / 10" "t 3 = 96 / 10"
    unfolding t_def by (rule loopTime_late)+
  have N: "N = 3"
  proof (rule ccontr)
    assume "N \<noteq> 3"
    then consider "N = 0" | "N = 1" | "N = 2" | "3 < N" by linarith
    then show False
    proof cases
      case 1 then show ?thesis using fin tv by simp
    next
      case 2 then show ?thesis using fin tv by simp
    next
      case 3 then show ?thesis using fin tv by simp
    next
      case 4 then show ?thesis using due tv by fastforce
    qed
  qed
  have u: "[0 ..< 3] = [0, 1, 2 :: nat]" by code_simp
  have m: "map t [0 ..< 3] = [24 / 10, 48 / 10, 72 / 10]"
    unfolding u using tv by simp
  have "drumStarts e' = [24 / 10, 48 / 10, 72 / 10]" "nextLoopTime e' = 96 / 10"
    "nextSource e' = 84"
    using ds nl ns tv unfolding N m by (simp_all add: late_fields drumSources_def)
  moreover from this al have "activeLoops e' (JStr ''drums'') = Some [56 ..< 84]"
    unfolding N by (simp add: late_fields drumSources_def)
  ultimately show ?thesis using r late_fields(1,2) by blast
qed


section \<open>The loop registry\<close>






text \<open>
  A bar number that is negative makes \<open>playNote\<close> throw: \<open>chords[-1]\<close> is
  \<open>undefined\<close>. The theorem on \<open>playNote\<close> below therefore asks for a bar number that
  is not negative.
\<close>

lemma playNote_negative_bar: "playNote (JNum 0) (- 1) Perfect engine0 = Inl TypeError"
  by (simp add: playNote_def engine0_def initialize_def AudioEngine_new_def getGenre_def
      GENRES_pop_def js_rem_def)






end
